theory Spec2Isabelle
  imports Complex_Main
begin

section \<open>JavaScript numbers\<close>

text \<open>
  The script computes with JavaScript numbers. They are modelled as exact reals extended
  with the three special values the script can produce: the two infinities and NaN
  (\<open>0 / 0\<close>). Rounding and overflow of the binary64 format are not modelled, and
  every zero is the positive zero (each divisor of the script that can be zero is a
  square root, a literal of the configuration or a width of a rectangle).
  The operations follow ECMAScript: an operation on NaN is NaN, a comparison with NaN
  is false, \<open>Math.max\<close> and \<open>Math.min\<close> return NaN when an argument is NaN.
\<close>

datatype jsnum = Fin real | PosInf | NegInf | NaN

text \<open>The infinity (or NaN) whose sign is the sign of a real.\<close>

definition infOf :: "real \<Rightarrow> jsnum" where
  "infOf s = (if s = 0 then NaN else if 0 < s then PosInf else NegInf)"

fun jneg :: "jsnum \<Rightarrow> jsnum" where
  "jneg (Fin a) = Fin (- a)"
| "jneg PosInf = NegInf"
| "jneg NegInf = PosInf"
| "jneg NaN = NaN"

fun jadd :: "jsnum \<Rightarrow> jsnum \<Rightarrow> jsnum" where
  "jadd (Fin a) (Fin b) = Fin (a + b)"
| "jadd NaN _ = NaN"
| "jadd _ NaN = NaN"
| "jadd PosInf NegInf = NaN"
| "jadd NegInf PosInf = NaN"
| "jadd PosInf _ = PosInf"
| "jadd _ PosInf = PosInf"
| "jadd NegInf _ = NegInf"
| "jadd _ NegInf = NegInf"

definition jsub :: "jsnum \<Rightarrow> jsnum \<Rightarrow> jsnum" where
  "jsub a b = jadd a (jneg b)"

text \<open>The sign of a number as a real; the sign of a finite number is the number.\<close>

fun signOf :: "jsnum \<Rightarrow> real" where
  "signOf (Fin a) = a"
| "signOf PosInf = 1"
| "signOf NegInf = - 1"
| "signOf NaN = 0"

fun jmul :: "jsnum \<Rightarrow> jsnum \<Rightarrow> jsnum" where
  "jmul (Fin a) (Fin b) = Fin (a * b)"
| "jmul NaN _ = NaN"
| "jmul _ NaN = NaN"
| "jmul a b = infOf (signOf a * signOf b)"

fun jdiv :: "jsnum \<Rightarrow> jsnum \<Rightarrow> jsnum" where
  "jdiv (Fin a) (Fin b) = (if b = 0 then infOf a else Fin (a / b))"
| "jdiv NaN _ = NaN"
| "jdiv _ NaN = NaN"
| "jdiv (Fin a) _ = Fin 0"
| "jdiv a (Fin b) = infOf (signOf a * (if b < 0 then - 1 else 1))"
| "jdiv _ _ = NaN"

fun jsqrt :: "jsnum \<Rightarrow> jsnum" where
  "jsqrt (Fin a) = (if a < 0 then NaN else Fin (sqrt a))"
| "jsqrt PosInf = PosInf"
| "jsqrt NegInf = NaN"
| "jsqrt NaN = NaN"

fun jlt :: "jsnum \<Rightarrow> jsnum \<Rightarrow> bool" where
  "jlt (Fin a) (Fin b) = (a < b)"
| "jlt NaN _ = False"
| "jlt _ NaN = False"
| "jlt PosInf _ = False"
| "jlt _ NegInf = False"
| "jlt _ _ = True"

fun jle :: "jsnum \<Rightarrow> jsnum \<Rightarrow> bool" where
  "jle (Fin a) (Fin b) = (a \<le> b)"
| "jle NaN _ = False"
| "jle _ NaN = False"
| "jle a b = (a = b \<or> jlt a b)"

definition jgt :: "jsnum \<Rightarrow> jsnum \<Rightarrow> bool" where
  "jgt a b = jlt b a"

definition jge :: "jsnum \<Rightarrow> jsnum \<Rightarrow> bool" where
  "jge a b = jle b a"

text \<open>\<open>Math.max(a, b)\<close> and \<open>Math.min(a, b)\<close>.\<close>

definition jmax :: "jsnum \<Rightarrow> jsnum \<Rightarrow> jsnum" where
  "jmax a b = (if a = NaN \<or> b = NaN then NaN else if jlt a b then b else a)"

definition jmin :: "jsnum \<Rightarrow> jsnum \<Rightarrow> jsnum" where
  "jmin a b = (if a = NaN \<or> b = NaN then NaN else if jlt b a then b else a)"

section \<open>Configuration\<close>

text \<open>
  A colour of the configuration is a string such as \<open>rgba(44, 62, 80, 0.2)\<close>. The
  script reads it through two regular expressions: the first three runs of digits are
  the channels, and the fourth number, when there is one, is the base alpha. A colour
  is represented by what these expressions return.
\<close>

record colour =
  red :: nat
  green :: nat
  blue :: nat
  alpha :: "real option"

text \<open>\<open>parseFloat(c.match(/[\d\.]+/g)[3] || 1)\<close>\<close>

definition baseAlpha :: "colour \<Rightarrow> real" where
  "baseAlpha c = (case alpha c of None \<Rightarrow> 1 | Some a \<Rightarrow> a)"

record palette =
  particleColor :: colour
  lineColor :: colour
  waveColor :: colour
  easterEggColor :: colour

datatype theme = Light | Dark

text \<open>
  The object \<open>config\<close>. Its numbers are literals, hence finite; \<open>particleCount\<close>
  bounds a counting loop.
\<close>

record config =
  particleCount :: nat
  maxDistance :: real
  particleSpeed :: real
  particleRadius :: real
  lineWidth :: real
  mouseRadius :: real
  mouseRepelRadius :: real
  mouseRepelStrength :: real
  waveOnClick :: bool
  waveMaxRadius :: real
  waveDurationFrames :: real
  waveInitialLineWidth :: real
  waveFadeOut :: bool
  enableEasterEgg :: bool
  easterEggAlwaysFirst :: bool
  lightColors :: palette
  darkColors :: palette

text \<open>The configuration as the script writes it.\<close>

definition theConfig :: config where
  "theConfig = \<lparr>
     particleCount = 120,
     maxDistance = 250,
     particleSpeed = 3 / 10,
     particleRadius = 4,
     lineWidth = 8 / 10,
     mouseRadius = 200,
     mouseRepelRadius = 150,
     mouseRepelStrength = 5 / 100,
     waveOnClick = True,
     waveMaxRadius = 80,
     waveDurationFrames = 90,
     waveInitialLineWidth = 1,
     waveFadeOut = True,
     enableEasterEgg = True,
     easterEggAlwaysFirst = False,
     lightColors = \<lparr>
       particleColor = \<lparr>red = 44, green = 62, blue = 80, alpha = Some (7 / 10)\<rparr>,
       lineColor = \<lparr>red = 44, green = 62, blue = 80, alpha = Some (2 / 10)\<rparr>,
       waveColor = \<lparr>red = 0, green = 86, blue = 179, alpha = Some (15 / 100)\<rparr>,
       easterEggColor = \<lparr>red = 227, green = 100, blue = 20, alpha = Some (9 / 10)\<rparr>\<rparr>,
     darkColors = \<lparr>
       particleColor = \<lparr>red = 224, green = 224, blue = 224, alpha = Some (6 / 10)\<rparr>,
       lineColor = \<lparr>red = 224, green = 224, blue = 224, alpha = Some (15 / 100)\<rparr>,
       waveColor = \<lparr>red = 121, green = 184, blue = 255, alpha = Some (15 / 100)\<rparr>,
       easterEggColor = \<lparr>red = 255, green = 165, blue = 0, alpha = Some (9 / 10)\<rparr>\<rparr>\<rparr>"

section \<open>Particles\<close>

text \<open>
  The fields \<open>x\<close> and \<open>y\<close> of a particle are named \<open>px\<close> and \<open>py\<close> here.
\<close>

record particle =
  radius :: jsnum
  px :: jsnum
  py :: jsnum
  vx :: jsnum
  vy :: jsnum
  isEasterEgg :: bool

text \<open>
  \<open>Particle.update\<close>, first part: the push away from a pressed pointer. The
  arguments are \<open>isMouseDown\<close>, \<open>mouse.x\<close> and \<open>mouse.y\<close> (\<open>None\<close> is \<open>null\<close>).
\<close>

definition repel :: "config \<Rightarrow> bool \<Rightarrow> jsnum option \<Rightarrow> jsnum option \<Rightarrow> particle \<Rightarrow> particle" where
  "repel cfg isMouseDown mx my p =
     (case (mx, my) of
        (Some mouse_x, Some mouse_y) \<Rightarrow>
          if isMouseDown then
            (let dxMouse = jsub (px p) mouse_x;
                 dyMouse = jsub (py p) mouse_y;
                 distanceMouse = jsqrt (jadd (jmul dxMouse dxMouse) (jmul dyMouse dyMouse))
             in if jlt distanceMouse (Fin (mouseRepelRadius cfg)) then
                  (let forceDirectionX = jdiv dxMouse distanceMouse;
                       forceDirectionY = jdiv dyMouse distanceMouse;
                       forceMagnitude =
                         jmul (jsub (Fin 1) (jdiv distanceMouse (Fin (mouseRepelRadius cfg))))
                              (Fin (mouseRepelStrength cfg));
                       vx1 = jadd (vx p) (jmul forceDirectionX forceMagnitude);
                       vy1 = jadd (vy p) (jmul forceDirectionY forceMagnitude);
                       maxSpeed = Fin (particleSpeed cfg * 3)
                   in p\<lparr>vx := jmax (jneg maxSpeed) (jmin maxSpeed vx1),
                        vy := jmax (jneg maxSpeed) (jmin maxSpeed vy1)\<rparr>)
                else p)
          else p
      | _ \<Rightarrow> p)"

text \<open>
  \<open>Particle.update\<close>, second part: the movement and the bounce off the edges of the
  canvas, of width \<open>W\<close> and height \<open>H\<close>. In the oldest variant of the script this is
  the whole of \<open>update\<close>.
\<close>

definition move :: "nat \<Rightarrow> nat \<Rightarrow> particle \<Rightarrow> particle" where
  "move W H p =
     (let x1 = jadd (px p) (vx p);
          y1 = jadd (py p) (vy p);
          p1 = p\<lparr>px := x1, py := y1\<rparr>;
          p2 = (if jgt (jadd x1 (radius p)) (Fin (real W)) \<or> jlt (jsub x1 (radius p)) (Fin 0)
                then p1\<lparr>vx := jneg (vx p1),
                        px := jmax (radius p) (jmin (jsub (Fin (real W)) (radius p)) x1)\<rparr>
                else p1)
      in if jgt (jadd y1 (radius p)) (Fin (real H)) \<or> jlt (jsub y1 (radius p)) (Fin 0)
         then p2\<lparr>vy := jneg (vy p2),
                 py := jmax (radius p) (jmin (jsub (Fin (real H)) (radius p)) y1)\<rparr>
         else p2)"

definition update :: "config \<Rightarrow> bool \<Rightarrow> jsnum option \<Rightarrow> jsnum option \<Rightarrow> nat \<Rightarrow> nat \<Rightarrow> particle \<Rightarrow> particle" where
  "update cfg isMouseDown mx my W H p = move W H (repel cfg isMouseDown mx my p)"

text \<open>
  The bounds of a particle on a canvas of width \<open>W\<close> and height \<open>H\<close>, with the
  comparisons of the script.
\<close>

definition inBounds :: "nat \<Rightarrow> nat \<Rightarrow> particle \<Rightarrow> bool" where
  "inBounds W H p \<longleftrightarrow>
     jle (radius p) (px p) \<and> jle (px p) (jsub (Fin (real W)) (radius p)) \<and>
     jle (radius p) (py p) \<and> jle (py p) (jsub (Fin (real H)) (radius p))"

text \<open>
  \<open>getRandom(min, max)\<close>; the first argument is the value that \<open>Math.random()\<close>
  returns in the call.
\<close>

definition getRandom :: "real \<Rightarrow> jsnum \<Rightarrow> jsnum \<Rightarrow> jsnum" where
  "getRandom r lo hi = jadd (jmul (Fin r) (jsub hi lo)) lo"

text \<open>
  The constructor of \<open>Particle\<close>, with the five values that \<open>Math.random()\<close>
  returns in it, in the order of the calls.
\<close>

definition newParticle :: "config \<Rightarrow> nat \<Rightarrow> nat \<Rightarrow> real \<Rightarrow> real \<Rightarrow> real \<Rightarrow> real \<Rightarrow> real \<Rightarrow> particle" where
  "newParticle cfg W H r1 r2 r3 r4 r5 =
     (let rad = getRandom r1 (Fin (particleRadius cfg * (1 / 2))) (Fin (particleRadius cfg * (3 / 2)));
          x0 = getRandom r2 rad (jsub (Fin (real W)) rad);
          y0 = getRandom r3 rad (jsub (Fin (real H)) rad);
          vx0 = getRandom r4 (Fin (- particleSpeed cfg)) (Fin (particleSpeed cfg));
          vy0 = getRandom r5 (Fin (- particleSpeed cfg)) (Fin (particleSpeed cfg))
      in \<lparr>radius = rad, px = x0, py = y0,
          vx = (if vx0 = Fin 0 then Fin (1 / 10) else vx0),
          vy = (if vy0 = Fin 0 then Fin (1 / 10) else vy0),
          isEasterEgg = False\<rparr>)"

section \<open>Waves\<close>

text \<open>The fields \<open>x\<close> and \<open>y\<close> of a wave are named \<open>wx\<close> and \<open>wy\<close> here.\<close>

record wave =
  wx :: jsnum
  wy :: jsnum
  currentRadius :: jsnum
  maxRadius :: jsnum
  life :: jsnum
  initialLife :: jsnum
  initialLineWidth :: jsnum

text \<open>The object that the \<open>mousedown\<close> listener pushes, for the pointer at \<open>(mx, my)\<close>.\<close>

definition newWave :: "config \<Rightarrow> jsnum \<Rightarrow> jsnum \<Rightarrow> wave" where
  "newWave cfg mx my =
     \<lparr>wx = mx, wy = my, currentRadius = Fin 0,
      maxRadius = Fin (mouseRepelRadius cfg),
      life = Fin (waveDurationFrames cfg),
      initialLife = Fin (waveDurationFrames cfg),
      initialLineWidth = Fin (waveInitialLineWidth cfg)\<rparr>"

text \<open>
  The callback of \<open>activeWaves.filter\<close> in \<open>animate\<close>. It first updates the wave
  (\<open>waveUpdate\<close>), then decides on the updated wave whether it stays and is drawn
  (\<open>waveKeep\<close>, with the base alpha of the wave colour of the theme).
\<close>

definition waveUpdate :: "wave \<Rightarrow> wave" where
  "waveUpdate w =
     w\<lparr>currentRadius := jadd (currentRadius w) (jdiv (maxRadius w) (initialLife w)),
       life := jsub (life w) (Fin 1)\<rparr>"

definition waveProgress :: "wave \<Rightarrow> jsnum" where
  "waveProgress w = jsub (Fin 1) (jdiv (life w) (initialLife w))"

definition waveOpacity :: "config \<Rightarrow> real \<Rightarrow> wave \<Rightarrow> jsnum" where
  "waveOpacity cfg waveBaseAlpha w =
     (if waveFadeOut cfg then jmul (jsub (Fin 1) (waveProgress w)) (Fin waveBaseAlpha)
      else Fin waveBaseAlpha)"

definition waveLineWidth :: "wave \<Rightarrow> jsnum" where
  "waveLineWidth w = jmul (initialLineWidth w) (jsub (Fin 1) (waveProgress w))"

definition waveKeep :: "config \<Rightarrow> real \<Rightarrow> wave \<Rightarrow> bool" where
  "waveKeep cfg waveBaseAlpha w =
     (if jgt (life w) (Fin 0) \<and> jlt (currentRadius w) (jmul (maxRadius w) (Fin (11 / 10)))
      then (if jle (waveLineWidth w) (Fin 0) \<or> jle (waveOpacity cfg waveBaseAlpha w) (Fin 0)
            then False else True)
      else False)"

section \<open>The canvas\<close>

text \<open>
  What the script draws is kept as the list of the shapes drawn since the canvas was
  last cleared: a filled disc (fill colour, centre, radius), a stroked circle and a
  stroked line (channels and alpha of the stroke colour, line width, geometry). A line
  records whether it joins two particles or a particle and the pointer.
\<close>

datatype lineKind = BetweenParticles | ToPointer

datatype draw =
    FillDisc colour jsnum jsnum jsnum
  | StrokeCircle "nat \<times> nat \<times> nat" jsnum jsnum jsnum jsnum jsnum
  | StrokeLine lineKind "nat \<times> nat \<times> nat" jsnum jsnum jsnum jsnum jsnum jsnum

text \<open>\<open>c.match(/\d+/g).slice(0, 3)\<close>\<close>

definition baseRGB :: "colour \<Rightarrow> nat \<times> nat \<times> nat" where
  "baseRGB c = (red c, green c, blue c)"

definition waveDraw :: "config \<Rightarrow> colour \<Rightarrow> wave \<Rightarrow> draw" where
  "waveDraw cfg c w =
     StrokeCircle (baseRGB c) (waveOpacity cfg (baseAlpha c) w) (waveLineWidth w)
       (wx w) (wy w) (currentRadius w)"

text \<open>\<open>Particle.draw\<close>\<close>

definition drawParticle :: "config \<Rightarrow> palette \<Rightarrow> particle \<Rightarrow> draw" where
  "drawParticle cfg colors p =
     FillDisc (if isEasterEgg p \<and> enableEasterEgg cfg then easterEggColor colors
               else particleColor colors)
       (px p) (py p) (radius p)"

text \<open>
  \<open>connectParticles\<close>. The inner loop over \<open>j > i\<close> runs over the particles after
  particle \<open>i\<close> (\<open>pairLines\<close>); then comes the line from particle \<open>i\<close> to the
  pointer (\<open>mouseLine\<close>).
\<close>

definition pairDistance :: "particle \<Rightarrow> particle \<Rightarrow> jsnum" where
  "pairDistance p_i p_j =
     (let dx = jsub (px p_i) (px p_j); dy = jsub (py p_i) (py p_j)
      in jsqrt (jadd (jmul dx dx) (jmul dy dy)))"

text \<open>The opacity of a line between two particles, before \<open>Math.max(0, _)\<close>.\<close>

definition lineOpacity :: "config \<Rightarrow> palette \<Rightarrow> jsnum \<Rightarrow> jsnum" where
  "lineOpacity cfg colors distance =
     jmul (jsub (Fin 1) (jdiv distance (Fin (maxDistance cfg)))) (Fin (baseAlpha (lineColor colors)))"

definition pairLine :: "config \<Rightarrow> palette \<Rightarrow> particle \<Rightarrow> particle \<Rightarrow> draw list" where
  "pairLine cfg colors p_i p_j =
     (let distance = pairDistance p_i p_j
      in if jlt distance (Fin (maxDistance cfg))
         then [StrokeLine BetweenParticles (baseRGB (lineColor colors))
                 (jmax (Fin 0) (lineOpacity cfg colors distance)) (Fin (lineWidth cfg))
                 (px p_i) (py p_i) (px p_j) (py p_j)]
         else [])"

fun pairLines :: "config \<Rightarrow> palette \<Rightarrow> particle \<Rightarrow> particle list \<Rightarrow> draw list" where
  "pairLines cfg colors p_i [] = []"
| "pairLines cfg colors p_i (p_j # rest) = pairLine cfg colors p_i p_j @ pairLines cfg colors p_i rest"

definition mouseLine :: "config \<Rightarrow> palette \<Rightarrow> jsnum option \<Rightarrow> jsnum option \<Rightarrow> particle \<Rightarrow> draw list" where
  "mouseLine cfg colors mx my p =
     (case (mx, my) of
        (Some mouse_x, Some mouse_y) \<Rightarrow>
          (let dxMouse = jsub (px p) mouse_x;
               dyMouse = jsub (py p) mouse_y;
               distanceMouse = jsqrt (jadd (jmul dxMouse dxMouse) (jmul dyMouse dyMouse))
           in if jlt distanceMouse (Fin (mouseRadius cfg))
              then [StrokeLine ToPointer (baseRGB (lineColor colors))
                      (jmax (Fin 0)
                         (jmul (jsub (Fin 1) (jdiv distanceMouse (Fin (mouseRadius cfg)))) (Fin (1 / 2))))
                      (Fin (lineWidth cfg))
                      (px p) (py p) mouse_x mouse_y]
              else [])
      | _ \<Rightarrow> [])"

fun connectParticles :: "config \<Rightarrow> palette \<Rightarrow> jsnum option \<Rightarrow> jsnum option \<Rightarrow> particle list \<Rightarrow> draw list" where
  "connectParticles cfg colors mx my [] = []"
| "connectParticles cfg colors mx my (p_i # rest) =
     pairLines cfg colors p_i rest @ mouseLine cfg colors mx my p_i @
     connectParticles cfg colors mx my rest"

section \<open>The state of the script\<close>

text \<open>
  The variables of the script: the two variables of the module
  (\<open>easterEggParticleFound\<close>, \<open>popupTimeoutId\<close>) and those of the listener of
  \<open>DOMContentLoaded\<close>; \<open>mouse.x\<close> and \<open>mouse.y\<close> are \<open>mouse_x\<close> and
  \<open>mouse_y\<close>, and \<open>None\<close> is \<open>null\<close> or \<open>undefined\<close>. Of the page, the state
  has the size of the canvas and what is drawn on it (\<open>frame\<close>), whether the element
  \<open>easter-egg-popup\<close> exists (\<open>popupElement\<close>) and has the class \<open>visible\<close>
  (\<open>popupVisible\<close>), the pending timeouts of the popup (\<open>pendingTimeouts\<close>) and the
  next handle that \<open>setTimeout\<close> or \<open>requestAnimationFrame\<close> returns
  (\<open>nextHandle\<close>; handles are positive). The field \<open>eggSignals\<close> is not a variable
  of the script: it counts the calls of \<open>showEasterEggPopup\<close>.
\<close>

record state =
  easterEggParticleFound :: bool
  popupTimeoutId :: "nat option"
  canvasWidth :: nat
  canvasHeight :: nat
  particles :: "particle list"
  activeWaves :: "wave list"
  animationFrameId :: "nat option"
  currentTheme :: theme
  mouse_x :: "jsnum option"
  mouse_y :: "jsnum option"
  isMouseDown :: bool
  popupElement :: bool
  popupVisible :: bool
  pendingTimeouts :: "nat list"
  nextHandle :: nat
  frame :: "draw list"
  eggSignals :: nat

text \<open>The truth value of a handle variable in a condition such as \<open>if (popupTimeoutId)\<close>.\<close>

definition truthy :: "nat option \<Rightarrow> bool" where
  "truthy h = (case h of None \<Rightarrow> False | Some n \<Rightarrow> n \<noteq> 0)"

definition getThemeColors :: "config \<Rightarrow> state \<Rightarrow> palette" where
  "getThemeColors cfg s = (case currentTheme s of Light \<Rightarrow> lightColors cfg | Dark \<Rightarrow> darkColors cfg)"

text \<open>
  \<open>animate\<close>: one frame. It clears the canvas, filters and draws the waves
  (\<open>animateWaves\<close>), updates and draws each particle (\<open>animateParticles\<close>), draws
  the lines, and stores the handle that \<open>requestAnimationFrame\<close> returns; the frame
  it asks for is the next application of \<open>animate\<close>.
\<close>

definition animateWaves :: "config \<Rightarrow> state \<Rightarrow> state" where
  "animateWaves cfg s =
     (if waveOnClick cfg then
        (let themeWaveColor = waveColor (getThemeColors cfg s);
             waveBaseAlpha = baseAlpha themeWaveColor;
             kept = filter (waveKeep cfg waveBaseAlpha) (map waveUpdate (activeWaves s))
         in s\<lparr>activeWaves := kept, frame := frame s @ map (waveDraw cfg themeWaveColor) kept\<rparr>)
      else s)"

definition animateParticles :: "config \<Rightarrow> state \<Rightarrow> state" where
  "animateParticles cfg s =
     (let ps = map (update cfg (isMouseDown s) (mouse_x s) (mouse_y s) (canvasWidth s) (canvasHeight s))
                 (particles s)
      in s\<lparr>particles := ps, frame := frame s @ map (drawParticle cfg (getThemeColors cfg s)) ps\<rparr>)"

definition animate :: "config \<Rightarrow> state \<Rightarrow> state" where
  "animate cfg s =
     (let s1 = animateWaves cfg (s\<lparr>frame := []\<rparr>);
          s2 = animateParticles cfg s1;
          s3 = s2\<lparr>frame := frame s2 @
                 connectParticles cfg (getThemeColors cfg s2) (mouse_x s2) (mouse_y s2) (particles s2)\<rparr>
      in s3\<lparr>animationFrameId := Some (nextHandle s3), nextHandle := Suc (nextHandle s3)\<rparr>)"

definition startAnimation :: "config \<Rightarrow> state \<Rightarrow> state" where
  "startAnimation cfg s = (if \<not> truthy (animationFrameId s) then animate cfg s else s)"

definition stopAnimation :: "state \<Rightarrow> state" where
  "stopAnimation s = (if truthy (animationFrameId s) then s\<lparr>animationFrameId := None\<rparr> else s)"

text \<open>
  \<open>init\<close>, for the size of the window and the values that \<open>Math.random()\<close>
  returns: \<open>rnd k\<close> is the value of call number \<open>k\<close>. A particle takes five calls, the
  choice of the egg one more. The loop that pushes the particles is \<open>makeParticles\<close>,
  the block that chooses the egg is \<open>markEgg\<close>.
\<close>

definition makeParticles :: "config \<Rightarrow> nat \<Rightarrow> nat \<Rightarrow> (nat \<Rightarrow> real) \<Rightarrow> particle list" where
  "makeParticles cfg W H rnd =
     map (\<lambda>i. newParticle cfg W H (rnd (5 * i)) (rnd (5 * i + 1)) (rnd (5 * i + 2))
                 (rnd (5 * i + 3)) (rnd (5 * i + 4)))
       [0 ..< particleCount cfg]"

definition markEgg :: "config \<Rightarrow> real \<Rightarrow> particle list \<Rightarrow> particle list" where
  "markEgg cfg r ps =
     (if enableEasterEgg cfg \<and> 0 < length ps then
        (let eggIndex0 = (if \<not> easterEggAlwaysFirst cfg then \<lfloor>r * real (length ps)\<rfloor> else 0);
             eggIndex = max 0 (min (int (length ps) - 1) eggIndex0)
         in ps[nat eggIndex := (ps ! nat eggIndex)\<lparr>isEasterEgg := True\<rparr>])
      else ps)"

definition init :: "config \<Rightarrow> nat \<Rightarrow> nat \<Rightarrow> (nat \<Rightarrow> real) \<Rightarrow> state \<Rightarrow> state" where
  "init cfg innerWidth innerHeight rnd s =
     (let ps = makeParticles cfg innerWidth innerHeight rnd;
          s1 = s\<lparr>canvasWidth := innerWidth, canvasHeight := innerHeight,
                 easterEggParticleFound := False,
                 particles := markEgg cfg (rnd (5 * particleCount cfg)) ps\<rparr>
      in startAnimation cfg s1)"

definition handleResize :: "config \<Rightarrow> nat \<Rightarrow> nat \<Rightarrow> (nat \<Rightarrow> real) \<Rightarrow> state \<Rightarrow> state" where
  "handleResize cfg innerWidth innerHeight rnd s = init cfg innerWidth innerHeight rnd (stopAnimation s)"

section \<open>The popup\<close>

text \<open>\<open>if (popupTimeoutId) { clearTimeout(popupTimeoutId); }\<close>\<close>

definition clearPopupTimeout :: "state \<Rightarrow> state" where
  "clearPopupTimeout s =
     (case popupTimeoutId s of
        None \<Rightarrow> s
      | Some h \<Rightarrow> if h \<noteq> 0 then s\<lparr>pendingTimeouts := removeAll h (pendingTimeouts s)\<rparr> else s)"

definition showEasterEggPopup :: "state \<Rightarrow> state" where
  "showEasterEggPopup s0 =
     (let s = s0\<lparr>eggSignals := Suc (eggSignals s0)\<rparr>
      in if \<not> popupElement s then s
         else (let s1 = clearPopupTimeout s
               in s1\<lparr>popupVisible := True,
                     popupTimeoutId := Some (nextHandle s1),
                     pendingTimeouts := nextHandle s1 # pendingTimeouts s1,
                     nextHandle := Suc (nextHandle s1)\<rparr>))"

definition hideEasterEggPopup :: "state \<Rightarrow> state" where
  "hideEasterEggPopup s =
     (if \<not> popupElement s then s
      else (let s1 = (if truthy (popupTimeoutId s) then (clearPopupTimeout s)\<lparr>popupTimeoutId := None\<rparr> else s)
            in s1\<lparr>popupVisible := False\<rparr>))"

section \<open>The pointer\<close>

text \<open>
  A mouse event has the coordinates \<open>clientX\<close> and \<open>clientY\<close>; \<open>rect\<close> is what
  \<open>canvas.getBoundingClientRect()\<close> returns when the event is handled.
\<close>

record mouseEvent =
  clientX :: real
  clientY :: real

record rect =
  rectLeft :: real
  rectTop :: real
  rectWidth :: real
  rectHeight :: real

definition updateMousePosition :: "mouseEvent \<Rightarrow> rect \<Rightarrow> state \<Rightarrow> state" where
  "updateMousePosition event r s =
     (let scaleX = jdiv (Fin (real (canvasWidth s))) (Fin (rectWidth r));
          scaleY = jdiv (Fin (real (canvasHeight s))) (Fin (rectHeight r))
      in s\<lparr>mouse_x := Some (jmul (Fin (clientX event - rectLeft r)) scaleX),
           mouse_y := Some (jmul (Fin (clientY event - rectTop r)) scaleY)\<rparr>)"

definition mousemove :: "mouseEvent \<Rightarrow> rect \<Rightarrow> state \<Rightarrow> state" where
  "mousemove event r s = updateMousePosition event r s"

definition mouseout :: "state \<Rightarrow> state" where
  "mouseout s = s\<lparr>mouse_x := None, mouse_y := None, isMouseDown := False\<rparr>"

definition mouseup :: "state \<Rightarrow> state" where
  "mouseup s = s\<lparr>isMouseDown := False\<rparr>"

text \<open>
  Whether a press at \<open>(mx, my)\<close> is on particle \<open>p\<close>: the test
  \<open>distanceClick < p.radius+20\<close> of the \<open>mousedown\<close> listener.
\<close>

definition clickHits :: "jsnum \<Rightarrow> jsnum \<Rightarrow> particle \<Rightarrow> bool" where
  "clickHits mx my p =
     (let dxClick = jsub mx (px p);
          dyClick = jsub my (py p);
          distanceClick = jsqrt (jadd (jmul dxClick dxClick) (jmul dyClick dyClick))
      in jlt distanceClick (jadd (radius p) (Fin 20)))"

text \<open>
  The loop of the \<open>mousedown\<close> listener over the particles; it returns the state and
  \<open>clickedOnEgg\<close>. The \<open>break\<close> is the branch without a recursive call.
\<close>

fun eggLoop :: "jsnum \<Rightarrow> jsnum \<Rightarrow> state \<Rightarrow> particle list \<Rightarrow> state \<times> bool" where
  "eggLoop mx my s [] = (s, False)"
| "eggLoop mx my s (p # ps) =
     (if clickHits mx my p then
        (if isEasterEgg p then ((showEasterEggPopup s)\<lparr>easterEggParticleFound := True\<rparr>, True)
         else eggLoop mx my s ps)
      else eggLoop mx my s ps)"

definition mousedown :: "config \<Rightarrow> mouseEvent \<Rightarrow> rect \<Rightarrow> state \<Rightarrow> state" where
  "mousedown cfg event r s =
     (let s1 = updateMousePosition event r (s\<lparr>isMouseDown := True\<rparr>);
          (s2, clickedOnEgg) =
            (case (mouse_x s1, mouse_y s1) of
               (Some mx, Some my) \<Rightarrow>
                 if enableEasterEgg cfg then eggLoop mx my s1 (particles s1) else (s1, False)
             | _ \<Rightarrow> (s1, False))
      in case (mouse_x s2, mouse_y s2) of
           (Some mx, Some my) \<Rightarrow>
             if waveOnClick cfg \<and> \<not> clickedOnEgg
             then s2\<lparr>activeWaves := activeWaves s2 @ [newWave cfg mx my]\<rparr>
             else s2
         | _ \<Rightarrow> s2)"

text \<open>The state when the listener of \<open>DOMContentLoaded\<close> reaches \<open>init()\<close>.\<close>

definition startState :: "theme \<Rightarrow> bool \<Rightarrow> state" where
  "startState th popup =
     \<lparr>easterEggParticleFound = False, popupTimeoutId = None,
      canvasWidth = 300, canvasHeight = 150,
      particles = [], activeWaves = [], animationFrameId = None, currentTheme = th,
      mouse_x = None, mouse_y = None, isMouseDown = False,
      popupElement = popup, popupVisible = False, pendingTimeouts = [], nextHandle = 1,
      frame = [], eggSignals = 0\<rparr>"

section \<open>Notions of the statements\<close>

fun isFin :: "jsnum \<Rightarrow> bool" where
  "isFin (Fin a) = True"
| "isFin _ = False"

definition finiteParticle :: "particle \<Rightarrow> bool" where
  "finiteParticle p \<longleftrightarrow>
     isFin (radius p) \<and> isFin (px p) \<and> isFin (py p) \<and> isFin (vx p) \<and> isFin (vy p)"

text \<open>
  A particle over the frames: \<open>updates\<close> runs one \<open>update\<close> for each state of
  the pointer in a list (\<open>isMouseDown\<close>, \<open>mouse.x\<close>, \<open>mouse.y\<close>), and
  \<open>neverAtPointer\<close> says that in none of these updates the pointer is pressed exactly
  at the position of the particle.
\<close>

fun updates :: "config \<Rightarrow> nat \<Rightarrow> nat \<Rightarrow> (bool \<times> jsnum option \<times> jsnum option) list \<Rightarrow> particle \<Rightarrow> particle" where
  "updates cfg W H [] p = p"
| "updates cfg W H ((dn, mx, my) # rest) p = updates cfg W H rest (update cfg dn mx my W H p)"

fun neverAtPointer :: "config \<Rightarrow> nat \<Rightarrow> nat \<Rightarrow> (bool \<times> jsnum option \<times> jsnum option) list \<Rightarrow> particle \<Rightarrow> bool" where
  "neverAtPointer cfg W H [] p = True"
| "neverAtPointer cfg W H ((dn, mx, my) # rest) p =
     (\<not> (dn \<and> mx = Some (px p) \<and> my = Some (py p)) \<and>
      neverAtPointer cfg W H rest (update cfg dn mx my W H p))"


text \<open>Whether a shape on the canvas is a line from a particle to the pointer.\<close>

fun isPointerLine :: "draw \<Rightarrow> bool" where
  "isPointerLine (StrokeLine ToPointer c a w x1 y1 x2 y2) = True"
| "isPointerLine _ = False"

text \<open>
  A state for the examples: a canvas of 800 by 600 shown at its own size, with a plain
  particle at (103, 104) and the egg at (100, 100), five apart.
\<close>

definition plainParticle :: particle where
  "plainParticle =
     \<lparr>radius = Fin 4, px = Fin 103, py = Fin 104, vx = Fin (1 / 10), vy = Fin (- (1 / 10)),
      isEasterEgg = False\<rparr>"

definition eggParticle :: particle where
  "eggParticle =
     \<lparr>radius = Fin 4, px = Fin 100, py = Fin 100, vx = Fin (1 / 10), vy = Fin (1 / 10),
      isEasterEgg = True\<rparr>"

definition exampleState :: state where
  "exampleState =
     (startState Light True)\<lparr>canvasWidth := 800, canvasHeight := 600,
        particles := [plainParticle, eggParticle]\<rparr>"

definition exampleRect :: rect where
  "exampleRect = \<lparr>rectLeft = 0, rectTop = 0, rectWidth = 800, rectHeight = 600\<rparr>"

text \<open>The example state after the egg was found once, its popup still shown.\<close>

definition foundState :: state where
  "foundState =
     exampleState\<lparr>easterEggParticleFound := True, popupTimeoutId := Some 7, popupVisible := True,
        pendingTimeouts := [7], nextHandle := 8, eggSignals := 1\<rparr>"

text \<open>A press at (100, 200), a hundred below the egg and on no particle.\<close>

definition examplePress :: mouseEvent where
  "examplePress = \<lparr>clientX = 100, clientY = 200\<rparr>"

section \<open>Arithmetic on finite numbers\<close>

lemma isFin_iff: "isFin a \<longleftrightarrow> (\<exists>r. a = Fin r)"
  by (cases a) simp_all

lemma jsub_Fin [simp]: "jsub (Fin a) (Fin b) = Fin (a - b)"
  by (simp add: jsub_def)

lemma jgt_Fin [simp]: "jgt (Fin a) (Fin b) \<longleftrightarrow> b < a"
  by (simp add: jgt_def)

lemma jge_Fin [simp]: "jge (Fin a) (Fin b) \<longleftrightarrow> b \<le> a"
  by (simp add: jge_def)

lemma jmax_Fin [simp]: "jmax (Fin a) (Fin b) = Fin (max a b)"
  by (simp add: jmax_def max_def)

lemma jmin_Fin [simp]: "jmin (Fin a) (Fin b) = Fin (min a b)"
  by (simp add: jmin_def min_def)

lemma sqrt_25: "sqrt 25 = 5"
  by (simp add: real_sqrt_unique)

section \<open>The movement of a particle\<close>

text \<open>On finite numbers, \<open>move\<close> is the reflection of the script, computed in the reals.\<close>

lemma move_Fin:
  assumes "radius p = Fin r" "px p = Fin x" "py p = Fin y" "vx p = Fin a" "vy p = Fin b"
  shows "move W H p =
     p\<lparr>px := Fin (if real W < x + a + r \<or> x + a - r < 0 then max r (min (real W - r) (x + a)) else x + a),
       py := Fin (if real H < y + b + r \<or> y + b - r < 0 then max r (min (real H - r) (y + b)) else y + b),
       vx := Fin (if real W < x + a + r \<or> x + a - r < 0 then - a else a),
       vy := Fin (if real H < y + b + r \<or> y + b - r < 0 then - b else b)\<rparr>"
  using assms by (simp add: move_def Let_def)

text \<open>
  The movement alone keeps a particle of finite numbers within the bounds, whatever its
  position before, when the canvas is at least two radii wide and tall.
\<close>

lemma move_in_bounds:
  assumes "finiteParticle p" "radius p = Fin r" "2 * r \<le> real W" "2 * r \<le> real H"
  shows "finiteParticle (move W H p) \<and> inBounds W H (move W H p) \<and> radius (move W H p) = Fin r"
proof -
  from assms(1) obtain x y a b where f: "px p = Fin x" "py p = Fin y" "vx p = Fin a" "vy p = Fin b"
    by (auto simp: finiteParticle_def isFin_iff)
  show ?thesis
    using assms(3,4) by (simp add: move_Fin [OF assms(2) f] finiteParticle_def inBounds_def assms(2))
qed

text \<open>A position that is NaN stays NaN: no comparison of the bounce holds for it.\<close>

lemma move_NaN: "px p = NaN \<Longrightarrow> px (move W H p) = NaN"
  by (simp add: move_def Let_def jgt_def jsub_def)

section \<open>The push of the pointer\<close>

lemma repel_absent:
  "mx = None \<or> my = None \<or> \<not> dn \<Longrightarrow> repel cfg dn mx my p = p"
  by (auto simp: repel_def split: option.splits)

lemma repel_position:
  "px (repel cfg dn mx my p) = px p \<and> py (repel cfg dn mx my p) = py p \<and>
   radius (repel cfg dn mx my p) = radius p \<and> isEasterEgg (repel cfg dn mx my p) = isEasterEgg p"
  by (simp add: repel_def Let_def split: option.splits)

text \<open>So a particle whose position is NaN keeps it through every update.\<close>

lemma update_NaN: "px p = NaN \<Longrightarrow> px (update cfg dn mx my W H p) = NaN"
  by (simp add: update_def move_NaN repel_position)

text \<open>
  The push on finite numbers, for the pointer pressed at \<open>(mx, my)\<close> and \<open>d\<close> the
  distance from the pointer to the particle. Within the radius of the push and at a
  positive distance, the velocity gains the force
  \<open>(1 - d / mouseRepelRadius) * mouseRepelStrength\<close> along the unit vector from the
  pointer to the particle, and each component is clamped to three times
  \<open>particleSpeed\<close>. At distance zero the unit vector is \<open>0 / 0\<close> and both components
  of the velocity become NaN.
\<close>

lemma repel_Fin:
  assumes "px p = Fin x" "py p = Fin y" "vx p = Fin a" "vy p = Fin b"
    and "d = sqrt ((x - mx) * (x - mx) + (y - my) * (y - my))"
  shows "repel cfg True (Some (Fin mx)) (Some (Fin my)) p =
     (if d < mouseRepelRadius cfg then
        (if d = 0 then p\<lparr>vx := NaN, vy := NaN\<rparr>
         else p\<lparr>vx := Fin (max (- (particleSpeed cfg * 3)) (min (particleSpeed cfg * 3)
                    (a + (x - mx) / d * ((1 - d / mouseRepelRadius cfg) * mouseRepelStrength cfg)))),
                vy := Fin (max (- (particleSpeed cfg * 3)) (min (particleSpeed cfg * 3)
                    (b + (y - my) / d * ((1 - d / mouseRepelRadius cfg) * mouseRepelStrength cfg))))\<rparr>)
      else p)"
proof -
  have nn: "\<not> (x - mx) * (x - mx) + (y - my) * (y - my) < 0"
    by (simp add: not_less)
  have z: "d = 0 \<Longrightarrow> x - mx = 0 \<and> y - my = 0"
    using assms(5) by (simp add: sum_squares_eq_zero_iff)
  show ?thesis
  proof (cases "d = 0")
    case True
    with z have "x - mx = 0" "y - my = 0" by simp_all
    then show ?thesis
      using assms True by (simp add: repel_def Let_def infOf_def jmax_def jmin_def)
  next
    case False
    have e: "sqrt ((x - mx) * (x - mx) + (y - my) * (y - my)) = d"
      by (simp add: assms(5))
    have dn: "\<not> d < 0"
      by (simp add: assms(5) not_less)
    show ?thesis
      using assms(1-4) nn False dn by (simp add: repel_def Let_def e)
  qed
qed

text \<open>A pointer whose position is infinite or NaN pushes no particle.\<close>

lemma repel_nonfinite_x:
  assumes "px p = Fin x" "py p = Fin y" "\<not> isFin m"
  shows "repel cfg dn (Some m) (Some m') p = p"
  using assms
  by (cases m; cases m') (simp_all add: repel_def Let_def jsub_def infOf_def)

lemma repel_nonfinite_y:
  assumes "px p = Fin x" "py p = Fin y" "\<not> isFin m'"
  shows "repel cfg dn (Some m) (Some m') p = p"
  using assms
  by (cases m; cases m') (simp_all add: repel_def Let_def jsub_def infOf_def)

lemma repel_finite:
  assumes "finiteParticle p" and "\<not> (dn \<and> mx = Some (px p) \<and> my = Some (py p))"
  shows "finiteParticle (repel cfg dn mx my p)"
proof -
  from assms(1) obtain x y a b where f: "px p = Fin x" "py p = Fin y" "vx p = Fin a" "vy p = Fin b"
    by (auto simp: finiteParticle_def isFin_iff)
  consider (absent) "mx = None \<or> my = None \<or> \<not> dn"
    | (inf) m m' where "mx = Some m" "my = Some m'" "\<not> isFin m \<or> \<not> isFin m'"
    | (fin) u v where "dn" "mx = Some (Fin u)" "my = Some (Fin v)"
    by (cases mx; cases my) (auto simp: isFin_iff)
  then show ?thesis
  proof cases
    case absent
    then show ?thesis using assms(1) by (simp add: repel_absent)
  next
    case inf
    then show ?thesis
      using assms(1) repel_nonfinite_x [OF f(1,2)] repel_nonfinite_y [OF f(1,2)] by auto
  next
    case fin
    define d where "d = sqrt ((x - u) * (x - u) + (y - v) * (y - v))"
    have "x \<noteq> u \<or> y \<noteq> v"
      using assms(2) fin f by auto
    then have "d \<noteq> 0"
      by (auto simp: d_def sum_squares_eq_zero_iff)
    then show ?thesis
      using assms(1) fin by (simp add: repel_Fin [OF f d_def] finiteParticle_def)
  qed
qed

text \<open>
  One update keeps a particle of finite numbers finite and within the bounds, for every
  state of the pointer but one: the pointer pressed exactly at the position of the
  particle.
\<close>

lemma update_keeps_bounds:
  assumes "finiteParticle p" "radius p = Fin r" "2 * r \<le> real W" "2 * r \<le> real H"
    and "\<not> (dn \<and> mx = Some (px p) \<and> my = Some (py p))"
  shows "finiteParticle (update cfg dn mx my W H p) \<and> inBounds W H (update cfg dn mx my W H p) \<and>
         radius (update cfg dn mx my W H p) = Fin r"
  unfolding update_def
  using move_in_bounds [OF repel_finite [OF assms(1,5)], of cfg r W H] assms(2-4)
  by (simp add: repel_position)

text \<open>
  Hence any number of updates keeps it there, as long as the pointer is never pressed
  exactly at the position of the particle.
\<close>

lemma updates_keep_bounds:
  assumes "2 * r \<le> real W" "2 * r \<le> real H"
  shows "finiteParticle p \<Longrightarrow> radius p = Fin r \<Longrightarrow> inBounds W H p \<Longrightarrow>
     neverAtPointer cfg W H ts p \<Longrightarrow>
     finiteParticle (updates cfg W H ts p) \<and> inBounds W H (updates cfg W H ts p)"
proof (induction ts arbitrary: p)
  case Nil
  then show ?case by simp
next
  case (Cons t ts)
  obtain dn mx my where t: "t = (dn, mx, my)"
    by (cases t) auto
  from Cons.prems t have n: "\<not> (dn \<and> mx = Some (px p) \<and> my = Some (py p))"
    and r: "neverAtPointer cfg W H ts (update cfg dn mx my W H p)"
    by simp_all
  from update_keeps_bounds [OF Cons.prems(1,2) assms n, of cfg]
  have "finiteParticle (update cfg dn mx my W H p)" "radius (update cfg dn mx my W H p) = Fin r"
    "inBounds W H (update cfg dn mx my W H p)"
    by simp_all
  from Cons.IH [OF this r] show ?case
    by (simp add: t)
qed

text \<open>
  Claim C1: a particle that starts within the bounds stays within them after any
  number of updates, whatever the pointer does. The script loses the bounds when the
  pointer is pressed exactly at the position of the particle: with the configuration
  of the script, a canvas of 800 by 600, a particle of radius 4 at (100, 100) and the
  pointer pressed at (100, 100), the particle is within the bounds before the update
  and its position is NaN after it, which no bound holds for.
\<close>

theorem update_loses_bounds_at_pointer:
  "inBounds 800 600
     \<lparr>radius = Fin 4, px = Fin 100, py = Fin 100, vx = Fin (1 / 10), vy = Fin (1 / 10),
      isEasterEgg = False\<rparr> \<and>
   px (update theConfig True (Some (Fin 100)) (Some (Fin 100)) 800 600
     \<lparr>radius = Fin 4, px = Fin 100, py = Fin 100, vx = Fin (1 / 10), vy = Fin (1 / 10),
      isEasterEgg = False\<rparr>) = NaN \<and>
   \<not> inBounds 800 600
     (update theConfig True (Some (Fin 100)) (Some (Fin 100)) 800 600
        \<lparr>radius = Fin 4, px = Fin 100, py = Fin 100, vx = Fin (1 / 10), vy = Fin (1 / 10),
         isEasterEgg = False\<rparr>)"
  by (simp add: inBounds_def update_def repel_def move_def theConfig_def Let_def
      jmax_def jmin_def jgt_def infOf_def)

text \<open>
  Claim C2: with the pointer pressed, a particle at a positive distance below
  \<open>mouseRepelRadius\<close> gains the force and its velocity is clamped (lemma
  \<open>repel_Fin\<close>); at distance zero the force is skipped and the velocity is unchanged.
  The script does not skip it: with the configuration of the script, for a particle at
  (100, 100) of velocity (1/10, 1/10) and the pointer pressed at (100, 100), both
  components of the velocity are NaN after the push.
\<close>

theorem repel_at_distance_zero:
  "repel theConfig True (Some (Fin 100)) (Some (Fin 100))
     \<lparr>radius = Fin 4, px = Fin 100, py = Fin 100, vx = Fin (1 / 10), vy = Fin (1 / 10),
      isEasterEgg = False\<rparr> =
   \<lparr>radius = Fin 4, px = Fin 100, py = Fin 100, vx = NaN, vy = NaN, isEasterEgg = False\<rparr>"
  by (simp add: repel_def theConfig_def Let_def jmax_def jmin_def infOf_def)

section \<open>The life of a wave\<close>


lemma animate_theme [simp]: "currentTheme (animate cfg s) = currentTheme s"
  by (simp add: animate_def animateWaves_def animateParticles_def Let_def)

lemma getThemeColors_cong: "currentTheme s = currentTheme s' \<Longrightarrow> getThemeColors cfg s = getThemeColors cfg s'"
  by (simp add: getThemeColors_def)

lemma animate_activeWaves:
  "activeWaves (animate cfg s) =
     (if waveOnClick cfg
      then filter (waveKeep cfg (baseAlpha (waveColor (getThemeColors cfg s)))) (map waveUpdate (activeWaves s))
      else activeWaves s)"
  by (simp add: animate_def animateWaves_def animateParticles_def Let_def getThemeColors_def)

lemma animate_funpow_theme [simp]: "currentTheme ((animate cfg ^^ k) s) = currentTheme s"
  by (induction k) simp_all










section \<open>Initialisation\<close>

lemma newParticle_plain: "\<not> isEasterEgg (newParticle cfg W H r1 r2 r3 r4 r5)"
  by (simp add: newParticle_def Let_def)

lemma makeParticles_length: "length (makeParticles cfg W H rnd) = particleCount cfg"
  by (simp add: makeParticles_def)

lemma makeParticles_plain: "filter isEasterEgg (makeParticles cfg W H rnd) = []"
  by (simp add: makeParticles_def filter_empty_conv newParticle_plain)

lemma one_marked:
  assumes "filter isEasterEgg ps = []" "i < length ps"
  shows "length (filter isEasterEgg (ps[i := (ps ! i)\<lparr>isEasterEgg := True\<rparr>])) = 1"
  using assms
proof (induction ps arbitrary: i)
  case Nil
  then show ?case by simp
next
  case (Cons p ps)
  show ?case
  proof (cases i)
    case 0
    with Cons.prems show ?thesis by (simp split: if_splits)
  next
    case (Suc j)
    with Cons show ?thesis by (simp split: if_splits)
  qed
qed

lemma markEgg_length: "length (markEgg cfg r ps) = length ps"
  by (simp add: markEgg_def Let_def)

lemma markEgg_count:
  assumes "filter isEasterEgg ps = []"
  shows "length (filter isEasterEgg (markEgg cfg r ps)) = (if enableEasterEgg cfg \<and> 0 < length ps then 1 else 0)"
proof (cases "enableEasterEgg cfg \<and> 0 < length ps")
  case True
  define e where "e = max 0 (min (int (length ps) - 1)
     (if \<not> easterEggAlwaysFirst cfg then \<lfloor>r * real (length ps)\<rfloor> else 0))"
  have "0 \<le> e" "e \<le> int (length ps) - 1"
    using True by (simp_all add: e_def)
  then have "nat e < length ps" by linarith
  from one_marked [OF assms this] True show ?thesis
    by (simp add: markEgg_def Let_def e_def)
next
  case False
  then show ?thesis using assms by (simp add: markEgg_def)
qed

lemma update_egg [simp]: "isEasterEgg (update cfg dn mx my W H p) = isEasterEgg p"
  by (simp add: update_def move_def repel_def Let_def split: option.splits)

lemma animate_eggs:
  "filter isEasterEgg (particles (animate cfg s)) =
   map (update cfg (isMouseDown s) (mouse_x s) (mouse_y s) (canvasWidth s) (canvasHeight s))
     (filter isEasterEgg (particles s))"
  by (simp add: animate_def animateParticles_def animateWaves_def Let_def filter_map comp_def)

lemma animate_particles_length: "length (particles (animate cfg s)) = length (particles s)"
  by (simp add: animate_def animateParticles_def animateWaves_def Let_def)

lemma startAnimation_eggs:
  "length (filter isEasterEgg (particles (startAnimation cfg s))) = length (filter isEasterEgg (particles s))"
  by (simp add: startAnimation_def animate_eggs)

lemma startAnimation_length: "length (particles (startAnimation cfg s)) = length (particles s)"
  by (simp add: startAnimation_def animate_particles_length)

text \<open>
  Claim C3: after every call of \<open>init\<close> with the egg enabled and at least one
  particle, exactly one particle is the egg; with the egg disabled or without particles,
  none is. This holds from every state and for all values that \<open>Math.random()\<close>
  returns; \<open>init\<close> leaves \<open>particleCount\<close> particles.
\<close>

theorem init_marks_one_egg:
  "length (particles (init cfg W H rnd s)) = particleCount cfg \<and>
   length (filter isEasterEgg (particles (init cfg W H rnd s))) =
     (if enableEasterEgg cfg \<and> 1 \<le> particleCount cfg then 1 else 0)"
  using markEgg_count [OF makeParticles_plain, where cfg = cfg and r = "rnd (5 * particleCount cfg)"]
  by (simp add: init_def Let_def startAnimation_eggs startAnimation_length markEgg_length
      makeParticles_length Suc_le_eq)

theorem init_marks_one_egg_witness:
  "length (particles (init theConfig 800 600 (\<lambda>k. 1 / 2) (startState Light True))) = 120 \<and>
   length (filter isEasterEgg (particles (init theConfig 800 600 (\<lambda>k. 1 / 2) (startState Light True)))) = 1"
  using init_marks_one_egg [of theConfig 800 600 "\<lambda>k. 1 / 2" "startState Light True"]
  by (simp add: theConfig_def)

section \<open>Presses\<close>

lemma sqrt_square: "0 \<le> a \<Longrightarrow> sqrt (a * a) = a"
  by simp

lemma sqrt_10000: "sqrt 10000 = 100"
  using sqrt_square [of 100] by simp


lemma eggLoop_hit:
  "\<exists>p\<in>set ps. isEasterEgg p \<and> clickHits mx my p \<Longrightarrow>
   eggLoop mx my s ps = ((showEasterEggPopup s)\<lparr>easterEggParticleFound := True\<rparr>, True)"
  by (induction ps) auto

lemma eggLoop_miss:
  "\<not> (\<exists>p\<in>set ps. isEasterEgg p \<and> clickHits mx my p) \<Longrightarrow> eggLoop mx my s ps = (s, False)"
  by (induction ps) auto

lemma updateMousePosition_fields [simp]:
  "particles (updateMousePosition ev r s) = particles s"
  "activeWaves (updateMousePosition ev r s) = activeWaves s"
  "eggSignals (updateMousePosition ev r s) = eggSignals s"
  "popupElement (updateMousePosition ev r s) = popupElement s"
  "isMouseDown (updateMousePosition ev r s) = isMouseDown s"
  "mouse_x (updateMousePosition ev r s) \<noteq> None"
  "mouse_y (updateMousePosition ev r s) \<noteq> None"
  by (simp_all add: updateMousePosition_def Let_def)

lemma updateMousePosition_down:
  "updateMousePosition ev r (s\<lparr>isMouseDown := b\<rparr>) = (updateMousePosition ev r s)\<lparr>isMouseDown := b\<rparr>"
  by (simp add: updateMousePosition_def Let_def)

lemma showEasterEggPopup_fields [simp]:
  "eggSignals (showEasterEggPopup s) = Suc (eggSignals s)"
  "activeWaves (showEasterEggPopup s) = activeWaves s"
  "mouse_x (showEasterEggPopup s) = mouse_x s"
  "mouse_y (showEasterEggPopup s) = mouse_y s"
  "particles (showEasterEggPopup s) = particles s"
  by (simp_all add: showEasterEggPopup_def clearPopupTimeout_def Let_def split: option.splits)

text \<open>
  The listener of \<open>mousedown\<close> for a press on an egg, and for a press on no egg
  (or with the egg disabled).
\<close>

lemma mousedown_hit:
  assumes "enableEasterEgg cfg"
    and "mouse_x (updateMousePosition ev r s) = Some mx" "mouse_y (updateMousePosition ev r s) = Some my"
    and "\<exists>p\<in>set (particles s). isEasterEgg p \<and> clickHits mx my p"
  shows "mousedown cfg ev r s =
     (showEasterEggPopup ((updateMousePosition ev r s)\<lparr>isMouseDown := True\<rparr>))\<lparr>easterEggParticleFound := True\<rparr>"
  using assms
  by (simp add: mousedown_def Let_def updateMousePosition_down eggLoop_hit)

lemma mousedown_miss:
  assumes "mouse_x (updateMousePosition ev r s) = Some mx" "mouse_y (updateMousePosition ev r s) = Some my"
    and "\<not> (enableEasterEgg cfg \<and> (\<exists>p\<in>set (particles s). isEasterEgg p \<and> clickHits mx my p))"
  shows "mousedown cfg ev r s =
     (if waveOnClick cfg
      then (updateMousePosition ev r s)\<lparr>isMouseDown := True,
             activeWaves := activeWaves s @ [newWave cfg mx my]\<rparr>
      else (updateMousePosition ev r s)\<lparr>isMouseDown := True\<rparr>)"
  using assms
  by (auto simp add: mousedown_def Let_def updateMousePosition_down eggLoop_miss)

lemma example_press:
  "mouse_x (updateMousePosition \<lparr>clientX = a, clientY = b\<rparr> exampleRect exampleState) = Some (Fin a)"
  "mouse_y (updateMousePosition \<lparr>clientX = a, clientY = b\<rparr> exampleRect exampleState) = Some (Fin b)"
  by (simp_all add: updateMousePosition_def exampleRect_def exampleState_def Let_def)

lemma example_hit: "clickHits (Fin 103) (Fin 104) eggParticle"
  by (simp add: clickHits_def eggParticle_def Let_def sqrt_25)

lemma example_miss: "\<not> clickHits (Fin 100) (Fin 200) eggParticle"
  by (simp add: clickHits_def eggParticle_def Let_def sqrt_10000)

text \<open>
  Claim C4: with the egg enabled, a press whose position is within \<open>radius + 20\<close>
  of the egg (the test \<open>distanceClick < p.radius+20\<close> of the script) calls
  \<open>showEasterEggPopup\<close> exactly once and adds no wave, whatever other particles the
  press is on.
\<close>

theorem press_on_egg:
  assumes "enableEasterEgg cfg"
    and "mouse_x (updateMousePosition ev r s) = Some mx" "mouse_y (updateMousePosition ev r s) = Some my"
    and "p \<in> set (particles s)" "isEasterEgg p" "clickHits mx my p"
  shows "eggSignals (mousedown cfg ev r s) = Suc (eggSignals s) \<and>
         activeWaves (mousedown cfg ev r s) = activeWaves s"
proof -
  have "\<exists>p\<in>set (particles s). isEasterEgg p \<and> clickHits mx my p"
    using assms(4-6) by blast
  from mousedown_hit [OF assms(1-3) this] show ?thesis by simp
qed

theorem press_on_egg_witness:
  "enableEasterEgg theConfig \<and> eggParticle \<in> set (particles exampleState) \<and>
   clickHits (Fin 103) (Fin 104) plainParticle \<and>
   clickHits (Fin 103) (Fin 104) eggParticle \<and>
   eggSignals (mousedown theConfig \<lparr>clientX = 103, clientY = 104\<rparr> exampleRect exampleState) = Suc 0 \<and>
   activeWaves (mousedown theConfig \<lparr>clientX = 103, clientY = 104\<rparr> exampleRect exampleState) = []"
proof -
  have h: "enableEasterEgg theConfig" "eggParticle \<in> set (particles exampleState)" "isEasterEgg eggParticle"
    by (simp_all add: theConfig_def exampleState_def eggParticle_def)
  have p: "clickHits (Fin 103) (Fin 104) plainParticle"
    by (simp add: clickHits_def plainParticle_def Let_def)
  from press_on_egg [OF h(1) example_press h(2,3) example_hit] h p example_hit show ?thesis
    by (simp add: exampleState_def startState_def)
qed

text \<open>
  Claim C7: with the waves enabled, a press that is not on the egg (or with the egg
  disabled) appends exactly one wave to \<open>activeWaves\<close>: at the position of the press,
  of radius 0, with \<open>maxRadius\<close> the radius of the push, with \<open>life\<close> the configured
  number of frames and with the configured starting line width.
\<close>

theorem press_off_egg:
  assumes "waveOnClick cfg"
    and "mouse_x (updateMousePosition ev r s) = Some mx" "mouse_y (updateMousePosition ev r s) = Some my"
    and "\<not> (enableEasterEgg cfg \<and> (\<exists>p\<in>set (particles s). isEasterEgg p \<and> clickHits mx my p))"
  shows "activeWaves (mousedown cfg ev r s) =
     activeWaves s @
       [\<lparr>wx = mx, wy = my, currentRadius = Fin 0, maxRadius = Fin (mouseRepelRadius cfg),
         life = Fin (waveDurationFrames cfg), initialLife = Fin (waveDurationFrames cfg),
         initialLineWidth = Fin (waveInitialLineWidth cfg)\<rparr>]"
  using mousedown_miss [OF assms(2-4)] assms(1) by (simp add: newWave_def)

theorem press_off_egg_witness:
  "waveOnClick theConfig \<and> \<not> clickHits (Fin 100) (Fin 200) eggParticle \<and>
   activeWaves (mousedown theConfig \<lparr>clientX = 100, clientY = 200\<rparr> exampleRect exampleState) =
     [\<lparr>wx = Fin 100, wy = Fin 200, currentRadius = Fin 0, maxRadius = Fin 150,
       life = Fin 90, initialLife = Fin 90, initialLineWidth = Fin 1\<rparr>]"
proof -
  have h: "waveOnClick theConfig"
    by (simp add: theConfig_def)
  have m: "\<not> (enableEasterEgg theConfig \<and>
     (\<exists>p\<in>set (particles exampleState). isEasterEgg p \<and> clickHits (Fin 100) (Fin 200) p))"
    using example_miss by (simp add: exampleState_def plainParticle_def)
  from press_off_egg [OF h example_press m] h example_miss show ?thesis
    by (simp add: exampleState_def startState_def theConfig_def)
qed

text \<open>
  Claim C10: the signal of the egg is not latched. A press on the egg has the same
  effect whether \<open>easterEggParticleFound\<close> was set before or not: it calls
  \<open>showEasterEggPopup\<close> again, and when the popup exists it is visible afterwards,
  the pending timeout of an earlier press is cleared and a new one is set.
\<close>

theorem egg_signal_not_latched:
  assumes "enableEasterEgg cfg"
    and "mouse_x (updateMousePosition ev r s) = Some mx" "mouse_y (updateMousePosition ev r s) = Some my"
    and "p \<in> set (particles s)" "isEasterEgg p" "clickHits mx my p"
  shows "mousedown cfg ev r (s\<lparr>easterEggParticleFound := True\<rparr>) =
           mousedown cfg ev r (s\<lparr>easterEggParticleFound := False\<rparr>) \<and>
         eggSignals (mousedown cfg ev r (s\<lparr>easterEggParticleFound := True\<rparr>)) = Suc (eggSignals s) \<and>
         (popupElement s \<longrightarrow>
            popupVisible (mousedown cfg ev r (s\<lparr>easterEggParticleFound := True\<rparr>)) \<and>
            popupTimeoutId (mousedown cfg ev r (s\<lparr>easterEggParticleFound := True\<rparr>)) = Some (nextHandle s) \<and>
            pendingTimeouts (mousedown cfg ev r (s\<lparr>easterEggParticleFound := True\<rparr>)) =
              nextHandle s # pendingTimeouts (clearPopupTimeout s))"
proof -
  have e: "\<exists>p\<in>set (particles (s\<lparr>easterEggParticleFound := b\<rparr>)). isEasterEgg p \<and> clickHits mx my p" for b
    using assms(4-6) by auto
  have m: "mouse_x (updateMousePosition ev r (s\<lparr>easterEggParticleFound := b\<rparr>)) = Some mx"
    "mouse_y (updateMousePosition ev r (s\<lparr>easterEggParticleFound := b\<rparr>)) = Some my" for b
    using assms(2,3) by (simp_all add: updateMousePosition_def Let_def)
  show ?thesis
    unfolding mousedown_hit [OF assms(1) m e]
    by (simp add: showEasterEggPopup_def updateMousePosition_def clearPopupTimeout_def Let_def
        split: option.splits)
qed

theorem egg_signal_not_latched_witness:
  "easterEggParticleFound foundState \<and>
   mousedown theConfig \<lparr>clientX = 103, clientY = 104\<rparr> exampleRect
       (foundState\<lparr>easterEggParticleFound := True\<rparr>) =
     mousedown theConfig \<lparr>clientX = 103, clientY = 104\<rparr> exampleRect
       (foundState\<lparr>easterEggParticleFound := False\<rparr>) \<and>
   eggSignals (mousedown theConfig \<lparr>clientX = 103, clientY = 104\<rparr> exampleRect
       (foundState\<lparr>easterEggParticleFound := True\<rparr>)) = Suc 1 \<and>
   popupVisible (mousedown theConfig \<lparr>clientX = 103, clientY = 104\<rparr> exampleRect
       (foundState\<lparr>easterEggParticleFound := True\<rparr>)) \<and>
   popupTimeoutId (mousedown theConfig \<lparr>clientX = 103, clientY = 104\<rparr> exampleRect
       (foundState\<lparr>easterEggParticleFound := True\<rparr>)) = Some 8 \<and>
   pendingTimeouts (mousedown theConfig \<lparr>clientX = 103, clientY = 104\<rparr> exampleRect
       (foundState\<lparr>easterEggParticleFound := True\<rparr>)) = [8]"
proof -
  have h: "enableEasterEgg theConfig" "eggParticle \<in> set (particles foundState)" "isEasterEgg eggParticle"
    by (simp_all add: theConfig_def foundState_def exampleState_def eggParticle_def)
  have m: "mouse_x (updateMousePosition \<lparr>clientX = 103, clientY = 104\<rparr> exampleRect foundState) = Some (Fin 103)"
    "mouse_y (updateMousePosition \<lparr>clientX = 103, clientY = 104\<rparr> exampleRect foundState) = Some (Fin 104)"
    by (simp_all add: updateMousePosition_def exampleRect_def foundState_def exampleState_def Let_def)
  have v: "eggSignals foundState = 1" "nextHandle foundState = 8"
    "pendingTimeouts (clearPopupTimeout foundState) = []"
    by (simp_all add: foundState_def exampleState_def startState_def clearPopupTimeout_def)
  have e: "popupElement foundState" "easterEggParticleFound foundState"
    by (simp_all add: foundState_def exampleState_def startState_def)
  note t = egg_signal_not_latched [OF h(1) m h(2,3) example_hit]
  note t1 = t [THEN conjunct1]
  note t2 = t [THEN conjunct2, THEN conjunct1, unfolded v]
  note t3 = t [THEN conjunct2, THEN conjunct2, rule_format, OF e(1), unfolded v]
  from e(2) t1 t2 t3 show ?thesis
    by blast
qed

section \<open>Waves in the frames\<close>


lemma getThemeColors_activeWaves [simp]:
  "getThemeColors cfg (s\<lparr>activeWaves := ws\<rparr>) = getThemeColors cfg s"
  by (simp add: getThemeColors_def)

lemma animate_getThemeColors [simp]: "getThemeColors cfg (animate cfg' s) = getThemeColors cfg s"
  by (rule getThemeColors_cong) simp




text \<open>The press of the examples, with the waves enabled, leaves one new wave.\<close>

lemma example_press_off:
  assumes "waveOnClick cfg"
  shows "activeWaves (mousedown cfg examplePress exampleRect exampleState) = [newWave cfg (Fin 100) (Fin 200)]"
proof -
  have m: "\<not> (enableEasterEgg cfg \<and>
     (\<exists>p\<in>set (particles exampleState). isEasterEgg p \<and> clickHits (Fin 100) (Fin 200) p))"
    using example_miss by (simp add: exampleState_def plainParticle_def)
  from mousedown_miss [OF example_press [of 100 200, folded examplePress_def] m] assms show ?thesis
    by (simp add: exampleState_def startState_def)
qed



text \<open>
  The other conditions of the amended claim are needed as well. With a radius of the
  push of 0 the first frame adds nothing and removes the wave; with a base alpha of 0
  the first frame removes the wave; with a life of 3 / 2 frames the wave has grown by 200
  when the second frame removes it, its \<open>maxRadius\<close> being 150.
\<close>

lemma wave_growth_conditions:
  "activeWaves (animate (theConfig\<lparr>mouseRepelRadius := 0\<rparr>)
     (mousedown (theConfig\<lparr>mouseRepelRadius := 0\<rparr>) examplePress exampleRect exampleState)) = [] \<and>
   currentRadius (waveUpdate (newWave (theConfig\<lparr>mouseRepelRadius := 0\<rparr>) (Fin 100) (Fin 200))) = Fin 0 \<and>
   activeWaves (animate
     (theConfig\<lparr>lightColors := (lightColors theConfig)\<lparr>waveColor :=
        \<lparr>red = 0, green = 86, blue = 179, alpha = Some 0\<rparr>\<rparr>\<rparr>)
     (mousedown
        (theConfig\<lparr>lightColors := (lightColors theConfig)\<lparr>waveColor :=
           \<lparr>red = 0, green = 86, blue = 179, alpha = Some 0\<rparr>\<rparr>\<rparr>)
        examplePress exampleRect exampleState)) = [] \<and>
   currentRadius (waveUpdate (waveUpdate
     (newWave (theConfig\<lparr>waveDurationFrames := 3 / 2\<rparr>) (Fin 100) (Fin 200)))) = Fin 200"
proof -
  let ?r = "theConfig\<lparr>mouseRepelRadius := 0\<rparr>"
  let ?a = "theConfig\<lparr>lightColors := (lightColors theConfig)\<lparr>waveColor :=
        \<lparr>red = 0, green = 86, blue = 179, alpha = Some 0\<rparr>\<rparr>\<rparr>"
  have w: "waveOnClick ?r" "waveOnClick ?a"
    by (simp_all add: theConfig_def)
  have r: "\<not> waveKeep ?r b (waveUpdate (newWave ?r (Fin 100) (Fin 200)))" for b
    by (simp add: waveKeep_def waveUpdate_def newWave_def theConfig_def)
  have al: "baseAlpha (waveColor (getThemeColors ?a (mousedown ?a examplePress exampleRect exampleState))) = 0"
    by (simp add: getThemeColors_def mousedown_def updateMousePosition_def Let_def exampleState_def
        startState_def theConfig_def baseAlpha_def showEasterEggPopup_def clearPopupTimeout_def
        split: prod.splits option.splits if_splits theme.splits)
  have a: "\<not> waveKeep ?a 0 (waveUpdate (newWave ?a (Fin 100) (Fin 200)))"
    by (simp add: waveKeep_def waveOpacity_def waveLineWidth_def waveProgress_def waveUpdate_def
        newWave_def theConfig_def)
  show ?thesis
    using r a
    by (simp add: example_press_off [OF w(1)] example_press_off [OF w(2)] animate_activeWaves w al)
      (simp add: waveUpdate_def newWave_def theConfig_def)
qed







section \<open>The absent pointer\<close>

lemma update_absent:
  "mx = None \<or> my = None \<or> \<not> dn \<Longrightarrow> update cfg dn mx my W H p = move W H p"
  by (auto simp: update_def repel_def split: option.splits)

lemma mouseLine_absent: "mx = None \<or> my = None \<Longrightarrow> mouseLine cfg colors mx my p = []"
  by (auto simp: mouseLine_def split: option.splits)

lemma pairLine_kind: "d \<in> set (pairLine cfg colors p q) \<Longrightarrow> \<not> isPointerLine d"
  by (auto simp: pairLine_def Let_def split: if_splits)

lemma pairLines_kind: "d \<in> set (pairLines cfg colors p ps) \<Longrightarrow> \<not> isPointerLine d"
  by (induction ps) (auto dest: pairLine_kind)

lemma connectParticles_absent:
  assumes "mx = None \<or> my = None"
  shows "d \<in> set (connectParticles cfg colors mx my ps) \<Longrightarrow> \<not> isPointerLine d"
  using assms by (induction ps) (auto simp: mouseLine_absent dest: pairLines_kind)

lemma animate_particles:
  "particles (animate cfg s) =
     map (update cfg (isMouseDown s) (mouse_x s) (mouse_y s) (canvasWidth s) (canvasHeight s)) (particles s)"
  by (simp add: animate_def animateParticles_def animateWaves_def Let_def)

lemma animate_frame:
  "frame (animate cfg s) =
     frame (animateWaves cfg (s\<lparr>frame := []\<rparr>)) @
     map (drawParticle cfg (getThemeColors cfg s)) (particles (animate cfg s)) @
     connectParticles cfg (getThemeColors cfg s) (mouse_x s) (mouse_y s) (particles (animate cfg s))"
  by (simp add: animate_def animateParticles_def animateWaves_def Let_def getThemeColors_def)

lemma animateWaves_frame_kind:
  "d \<in> set (frame (animateWaves cfg (s\<lparr>frame := []\<rparr>))) \<Longrightarrow> \<not> isPointerLine d"
  by (auto simp: animateWaves_def Let_def waveDraw_def split: if_splits)

lemma animate_no_pointer_line:
  assumes "mouse_x s = None \<or> mouse_y s = None"
  shows "d \<in> set (frame (animate cfg s)) \<Longrightarrow> \<not> isPointerLine d"
  using connectParticles_absent [OF assms, of d cfg "getThemeColors cfg s" "particles (animate cfg s)"]
  by (auto simp: animate_frame drawParticle_def dest: animateWaves_frame_kind)

text \<open>
  An absent pointer is not a pointer at the origin: pressed at \<open>(0, 0)\<close>, the
  pointer pushes a particle at \<open>(3, 4)\<close>; absent, it does not.
\<close>

lemma origin_pushes:
  "update theConfig True (Some (Fin 0)) (Some (Fin 0)) 800 600
     \<lparr>radius = Fin 2, px = Fin 3, py = Fin 4, vx = Fin 0, vy = Fin 0, isEasterEgg = False\<rparr> \<noteq>
   update theConfig True None None 800 600
     \<lparr>radius = Fin 2, px = Fin 3, py = Fin 4, vx = Fin 0, vy = Fin 0, isEasterEgg = False\<rparr>"
  by (simp add: update_def repel_def move_def theConfig_def Let_def sqrt_25)

text \<open>
  Claim C8: when the position of the pointer is absent, a frame moves every particle by
  its velocity and the bounce only, and draws no line to the pointer; \<open>mouseout\<close>
  makes the position absent and clears \<open>isMouseDown\<close>, so the frames after it push no
  particle, also when the pointer comes back without a press.
\<close>

theorem absent_pointer_no_interaction:
  "(mouse_x s = None \<or> mouse_y s = None \<longrightarrow>
      particles (animate cfg s) = map (move (canvasWidth s) (canvasHeight s)) (particles s) \<and>
      filter isPointerLine (frame (animate cfg s)) = []) \<and>
   mouse_x (mouseout s) = None \<and> mouse_y (mouseout s) = None \<and> \<not> isMouseDown (mouseout s) \<and>
   particles (animate cfg (mouseout s)) = map (move (canvasWidth s) (canvasHeight s)) (particles s) \<and>
   (\<forall>ev r. particles (animate cfg (mousemove ev r (mouseout s))) =
      map (move (canvasWidth s) (canvasHeight s)) (particles s))"
proof -
  have a: "particles (animate cfg s) = map (move (canvasWidth s) (canvasHeight s)) (particles s)"
    if "mouse_x s = None \<or> mouse_y s = None \<or> \<not> isMouseDown s" for s
    using that by (simp add: animate_particles update_absent cong: map_cong)
  have b: "filter isPointerLine (frame (animate cfg s)) = []" if "mouse_x s = None \<or> mouse_y s = None"
    using animate_no_pointer_line [OF that] by (auto simp: filter_empty_conv)
  have c: "particles (animate cfg (mouseout s)) = map (move (canvasWidth s) (canvasHeight s)) (particles s)"
    using a [of "mouseout s"] by (simp add: mouseout_def)
  have d: "particles (animate cfg (mousemove ev r (mouseout s))) =
      map (move (canvasWidth s) (canvasHeight s)) (particles s)" for ev r
    using a [of "mousemove ev r (mouseout s)"]
    by (simp add: mouseout_def mousemove_def updateMousePosition_def Let_def)
  from a b c d show ?thesis
    by (simp add: mouseout_def)
qed

theorem absent_pointer_no_interaction_witness:
  "mouse_x exampleState = None \<and>
   particles (animate theConfig exampleState) = map (move 800 600) [plainParticle, eggParticle] \<and>
   filter isPointerLine (frame (animate theConfig exampleState)) = [] \<and>
   particles (animate theConfig (mouseout exampleState)) = map (move 800 600) [plainParticle, eggParticle]"
proof -
  have h: "mouse_x exampleState = None \<or> mouse_y exampleState = None"
    by (simp add: exampleState_def startState_def)
  have v: "canvasWidth exampleState = 800" "canvasHeight exampleState = 600"
    "particles exampleState = [plainParticle, eggParticle]" "mouse_x exampleState = None"
    by (simp_all add: exampleState_def startState_def)
  note t = absent_pointer_no_interaction [of exampleState theConfig, unfolded v]
  note t1 = t [THEN conjunct1, rule_format, OF disjI1, OF refl]
  note t2 = t [THEN conjunct2, THEN conjunct2, THEN conjunct2, THEN conjunct2, THEN conjunct1]
  from v(4) t1 t2 show ?thesis
    by blast
qed

section \<open>Lines between particles\<close>

lemma pairLines_set:
  "set (pairLines cfg colors p ps) = (\<Union>q\<in>set ps. set (pairLine cfg colors p q))"
  by (induction ps) auto

text \<open>What \<open>connectParticles\<close> draws holds the line of each pair \<open>i < j\<close>.\<close>

lemma connectParticles_pair:
  "i < j \<Longrightarrow> j < length ps \<Longrightarrow>
   set (pairLine cfg colors (ps ! i) (ps ! j)) \<subseteq> set (connectParticles cfg colors mx my ps)"
proof (induction ps arbitrary: i j)
  case Nil
  then show ?case by simp
next
  case (Cons p ps)
  from Cons.prems obtain j' where j: "j = Suc j'" "j' < length ps"
    by (cases j) auto
  show ?case
  proof (cases i)
    case 0
    have "set (pairLine cfg colors p (ps ! j')) \<subseteq> set (pairLines cfg colors p ps)"
      using nth_mem [OF j(2)] by (force simp: pairLines_set)
    then show ?thesis
      using 0 j by auto
  next
    case (Suc i')
    with Cons.prems j have "i' < j'" by simp
    from Cons.IH [OF this j(2)] show ?thesis
      using Suc j by auto
  qed
qed



end
